theory Spec2Isabelle
  imports Complex_Main "HOL-Library.Sublist"
begin

section \<open>Python values and library behaviour used by \<^verbatim>\<open>lib/oras.py\<close>\<close>

text \<open>
  The module drives an external client through \<^verbatim>\<open>subprocess\<close>, reads the file system,
  and prints through the helper modules \<^verbatim>\<open>terminal\<close> and \<^verbatim>\<open>progress\<close>. Everything it
  does to the outside is recorded as an event of a trace; everything the outside answers
  is a field of an environment record. Python strings are \<open>string\<close>, byte counts are
  \<open>nat\<close>, and the floats of the progress computation are exact rationals.
\<close>

subsection \<open>Strings\<close>

text \<open>\<^verbatim>\<open>s.rsplit(sep, 1)\<close> for a one-character separator: split at the last separator.\<close>

definition rsplit1 :: "string \<Rightarrow> char \<Rightarrow> string list" where
  "rsplit1 s c =
     (case dropWhile (\<lambda>x. x \<noteq> c) (rev s) of
        [] \<Rightarrow> [s]
      | _ # b \<Rightarrow> [rev b, rev (takeWhile (\<lambda>x. x \<noteq> c) (rev s))])"

text \<open>\<^verbatim>\<open>sub in s\<close> on strings.\<close>

fun str_in :: "string \<Rightarrow> string \<Rightarrow> bool" where
  "str_in sub [] = (sub = [])"
| "str_in sub (x # xs) = (prefix sub (x # xs) \<or> str_in sub xs)"

text \<open>\<^verbatim>\<open>' '.join(xs)\<close>.\<close>

fun join_sp :: "string list \<Rightarrow> string" where
  "join_sp [] = []"
| "join_sp [x] = x"
| "join_sp (x # y # ys) = x @ '' '' @ join_sp (y # ys)"

text \<open>\<^verbatim>\<open>str(n)\<close> for a non-negative integer.\<close>

definition digit_char :: "nat \<Rightarrow> char" where
  "digit_char d = ''0123456789'' ! d"

fun str_nat :: "nat \<Rightarrow> string" where
  "str_nat n = (if n < 10 then [digit_char n] else str_nat (n div 10) @ [digit_char (n mod 10)])"

declare str_nat.simps [simp del]

subsection \<open>Decoded JSON\<close>

datatype json =
    JNull
  | JBool bool
  | JNum rat
  | JStr string
  | JArr "json list"
  | JObj "(string \<times> json) list"

datatype pyexc =
    IndexError
  | KeyError string
  | TypeError
  | JSONDecodeError
  | OSError string
  | ZeroDivisionError
  | UnboundLocalError string

text \<open>
  What can leave a Python frame other than a value. \<open>SystemExit\<close> and
  \<open>KeyboardInterrupt\<close> are not subclasses of \<^verbatim>\<open>Exception\<close>, so an
  \<^verbatim>\<open>except Exception\<close> clause lets them pass.
\<close>

datatype exn = SystemExit | KeyboardInterrupt | Exc pyexc

text \<open>\<^verbatim>\<open>v[key]\<close> with a string key: only a dict answers.\<close>

fun getitem_str :: "json \<Rightarrow> string \<Rightarrow> pyexc + json" where
  "getitem_str (JObj kvs) k = (case map_of kvs k of None \<Rightarrow> Inl (KeyError k) | Some v \<Rightarrow> Inr v)"
| "getitem_str _ k = Inl TypeError"

text \<open>\<^verbatim>\<open>len(v)\<close>: lists, dicts and strings have a length.\<close>

fun py_len :: "json \<Rightarrow> pyexc + nat" where
  "py_len (JArr xs) = Inr (length xs)"
| "py_len (JObj kvs) = Inr (length (remdups (map fst kvs)))"
| "py_len (JStr s) = Inr (length s)"
| "py_len _ = Inl TypeError"

text \<open>\<^verbatim>\<open>v[0]\<close>: a dict decoded from JSON has string keys only, so the key 0 is missing.\<close>

fun getitem0 :: "json \<Rightarrow> pyexc + json" where
  "getitem0 (JArr []) = Inl IndexError"
| "getitem0 (JArr (x # xs)) = Inr x"
| "getitem0 (JObj kvs) = Inl (KeyError ''0'')"
| "getitem0 (JStr []) = Inl IndexError"
| "getitem0 (JStr (c # cs)) = Inr (JStr [c])"
| "getitem0 _ = Inl TypeError"

subsection \<open>Events and the environment\<close>

text \<open>
  One event per call that reaches the outside: the \<^verbatim>\<open>terminal\<close> printers, the progress
  renderer (fraction, width, label), process launch and termination (named by the full
  command line), file removal and sleeping.
\<close>

datatype event =
    Info string
  | Error string
  | Stdout string
  | Progress rat nat string
  | Launch "string list"
  | Terminate "string list"
  | Rmtree string
  | Remove string
  | Sleep rat

text \<open>
  A child process as the module sees it: what \<^verbatim>\<open>communicate()\<close> returns, the exit
  code, and for the i-th call of \<^verbatim>\<open>poll()\<close> whether the child is still running.
\<close>

record child =
  stdout_text :: string
  stderr_text :: string
  returncode :: int
  running :: "nat \<Rightarrow> bool"

type_synonym handle = "string list \<times> child"

text \<open>The blocking calls at which a user interrupt can be delivered.\<close>

datatype point =
    GraceSleep string
  | Spawning "string list"
  | Waiting "string list"
  | TickSleep nat

record env =
  oras_file :: string
  oras_file_is_file :: bool
  which_oras :: "string option"
  popen :: "string list \<Rightarrow> pyexc + child"
  interrupted :: "point \<Rightarrow> bool"
  path_exists :: "string \<Rightarrow> bool"
  sqfs_size :: "nat \<Rightarrow> nat option"
  is_tty :: bool
  json_loads :: "string \<Rightarrow> json option"
  py_str :: "json \<Rightarrow> string"
  exc_str :: "pyexc \<Rightarrow> string"
  colorize :: "string \<Rightarrow> string \<Rightarrow> string"

text \<open>
  \<open>oras_file\<close> is the path \<^verbatim>\<open>libexec/uenv-oras\<close> next to the module and
  \<open>oras_file_is_file\<close> the answer of \<^verbatim>\<open>is_file()\<close> for it; \<open>which_oras\<close> is
  \<^verbatim>\<open>shutil.which("oras")\<close>; \<open>popen\<close> is \<^verbatim>\<open>subprocess.Popen\<close> (an exception or a
  child); \<open>path_exists\<close> is \<^verbatim>\<open>os.path.exists\<close> at the cleanup checks; \<open>sqfs_size i\<close>
  is what the i-th monitoring tick finds at the watched path (\<open>None\<close>: no file);
  \<open>json_loads\<close> is \<^verbatim>\<open>json.loads\<close> (\<open>None\<close>: it raises); \<open>py_str\<close> and \<open>exc_str\<close>
  are \<^verbatim>\<open>str()\<close> on decoded values and on exceptions; \<open>colorize\<close> is
  \<^verbatim>\<open>terminal.colorize\<close>.
\<close>

subsection \<open>Statements: state, exceptions, sequencing\<close>

text \<open>
  The state of a call: the trace so far and the local variable \<^verbatim>\<open>proc\<close>, which is
  unbound until the first assignment.
\<close>

record st =
  trace :: "event list"
  proc :: "handle option"

text \<open>
  A statement maps a state to how it ends (an exception or a value) and the state then;
  \<open>None\<close> is a statement that never ends (the monitoring loop on a child that never
  exits).
\<close>

type_synonym 'a prog = "st \<Rightarrow> ((exn + 'a) \<times> st) option"

definition ret :: "'a \<Rightarrow> 'a prog" where
  "ret x s = Some (Inr x, s)"

definition throw :: "exn \<Rightarrow> 'a prog" where
  "throw e s = Some (Inl e, s)"

definition andthen :: "'a prog \<Rightarrow> ('a \<Rightarrow> 'b prog) \<Rightarrow> 'b prog" where
  "andthen m f s =
     (case m s of
        None \<Rightarrow> None
      | Some (Inl e, s') \<Rightarrow> Some (Inl e, s')
      | Some (Inr x, s') \<Rightarrow> f x s')"

definition seq :: "unit prog \<Rightarrow> 'b prog \<Rightarrow> 'b prog" where
  "seq m n = andthen m (\<lambda>_. n)"

definition emit :: "event \<Rightarrow> unit prog" where
  "emit ev s = Some (Inr (), s\<lparr>trace := trace s @ [ev]\<rparr>)"

definition lift :: "pyexc + 'a \<Rightarrow> 'a prog" where
  "lift r = (case r of Inl e \<Rightarrow> throw (Exc e) | Inr x \<Rightarrow> ret x)"

definition set_proc :: "handle \<Rightarrow> unit prog" where
  "set_proc h s = Some (Inr (), s\<lparr>proc := Some h\<rparr>)"

definition checkpoint :: "env \<Rightarrow> point \<Rightarrow> unit prog" where
  "checkpoint E pt = (if interrupted E pt then throw KeyboardInterrupt else ret ())"

text \<open>
  \<^verbatim>\<open>try: body except KeyboardInterrupt: h1 except Exception as e: h2\<close>. An exception
  raised inside a handler leaves the statement.
\<close>

definition try_except :: "'a prog \<Rightarrow> 'a prog \<Rightarrow> (pyexc \<Rightarrow> 'a prog) \<Rightarrow> 'a prog" where
  "try_except body on_interrupt on_exception s =
     (case body s of
        None \<Rightarrow> None
      | Some (Inl KeyboardInterrupt, s') \<Rightarrow> on_interrupt s'
      | Some (Inl (Exc e), s') \<Rightarrow> on_exception e s'
      | Some (Inl SystemExit, s') \<Rightarrow> Some (Inl SystemExit, s')
      | Some (Inr x, s') \<Rightarrow> Some (Inr x, s'))"

text \<open>\<^verbatim>\<open>try: body except Exception as e: h\<close>.\<close>

definition except_Exception :: "'a prog \<Rightarrow> (pyexc \<Rightarrow> 'a prog) \<Rightarrow> 'a prog" where
  "except_Exception body on_exception = try_except body (throw KeyboardInterrupt) on_exception"

text \<open>
  Modelled from the spec: \<^verbatim>\<open>terminal.error\<close>, whose module is not among the sources.
  Every reported failure is fatal to the call and aborts it at once: the printer writes
  the message and ends the call the way \<^verbatim>\<open>sys.exit\<close> does, with an exit that no
  \<^verbatim>\<open>except Exception\<close> clause catches. \<^verbatim>\<open>terminal.info\<close> and \<^verbatim>\<open>terminal.stdout\<close> print
  and return.
\<close>

definition terminal_error :: "string \<Rightarrow> 'a prog" where
  "terminal_error msg s = Some (Inl SystemExit, s\<lparr>trace := trace s @ [Error msg]\<rparr>)"

definition terminal_info :: "string \<Rightarrow> unit prog" where
  "terminal_info msg = emit (Info msg)"

definition terminal_stdout :: "string \<Rightarrow> unit prog" where
  "terminal_stdout msg = emit (Stdout msg)"

text \<open>
  Modelled from the spec: \<^verbatim>\<open>progress.progress_bar\<close>, whose module is not among the
  sources: it consumes a fraction and a label and produces one line of output.
\<close>

definition progress_bar :: "rat \<Rightarrow> nat \<Rightarrow> string \<Rightarrow> unit prog" where
  "progress_bar p width msg = emit (Progress p width msg)"

section \<open>The module \<^verbatim>\<open>lib/oras.py\<close>\<close>

subsection \<open>Library calls\<close>

text \<open>\<^verbatim>\<open>xs[i]\<close> on a list.\<close>

definition nth_py :: "'a list \<Rightarrow> nat \<Rightarrow> pyexc + 'a" where
  "nth_py xs i = (if i < length xs then Inr (xs ! i) else Inl IndexError)"

text \<open>\<^verbatim>\<open>h.communicate()\<close>: blocks until the child has exited, returns both streams.\<close>

definition communicate :: "env \<Rightarrow> handle \<Rightarrow> (string \<times> string) prog" where
  "communicate E h =
     seq (checkpoint E (Waiting (fst h)))
         (ret (stdout_text (snd h), stderr_text (snd h)))"

text \<open>
  \<^verbatim>\<open>proc.terminate()\<close> on the local variable \<^verbatim>\<open>proc\<close>: reading the variable before
  its first assignment raises \<^verbatim>\<open>UnboundLocalError\<close>.
\<close>

definition terminate_proc :: "unit prog" where
  "terminate_proc s =
     (case proc s of
        None \<Rightarrow> Some (Inl (Exc (UnboundLocalError ''proc'')), s)
      | Some h \<Rightarrow> Some (Inr (), s\<lparr>trace := trace s @ [Terminate (fst h)]\<rparr>))"

text \<open>The f-string rendering of a decoded value: a string is itself.\<close>

definition fmt :: "env \<Rightarrow> json \<Rightarrow> string" where
  "fmt E v = (case v of JStr s \<Rightarrow> s | _ \<Rightarrow> py_str E v)"

definition nl :: string where
  "nl = [CHR 0x0A]"

subsection \<open>\<^verbatim>\<open>find_oras\<close> and \<^verbatim>\<open>run_command_internal\<close>\<close>

definition find_oras :: "env \<Rightarrow> string prog" where
  "find_oras E =
     seq (terminal_info (''searching for oras executable: '' @ oras_file E))
     (if oras_file_is_file E then
        seq (terminal_info (''using '' @ oras_file E))
            (ret (oras_file E))
      else
        seq (terminal_info (oras_file E @ '' does not exist - searching for oras''))
        (case which_oras E of
           None \<Rightarrow> terminal_error ''no oras executable found''
         | Some f \<Rightarrow>
             if f = [] then terminal_error ''no oras executable found''
             else seq (terminal_info (''using '' @ f)) (ret f)))"

definition run_command_internal :: "env \<Rightarrow> string list \<Rightarrow> handle prog" where
  "run_command_internal E args =
     except_Exception
       (andthen (find_oras E) (\<lambda>oras.
        let command = oras # args in
        seq (terminal_info (''calling oras: '' @ join_sp command))
       (seq (checkpoint E (Spawning command))
       (andthen (lift (popen E command)) (\<lambda>process.
        seq (emit (Launch command))
            (ret (command, process)))))))
       (\<lambda>e. terminal_error (''an unknown error occured with the oras client: '' @ exc_str E e))"

subsection \<open>\<^verbatim>\<open>error_message_from_stderr\<close> and \<^verbatim>\<open>run_command\<close>\<close>

definition permission_signature :: string where
  "permission_signature = ''client does not have permission for manifest''"

definition permission_hint :: "env \<Rightarrow> string" where
  "permission_hint E =
     colorize E ''Hint'' ''yellow'' @
     '' check that you have permissions to pull from the target JFrog registry, or contact CSCS Service Desk with the full command and output (preferrably also with the --verbose flag).''"

definition error_message_from_stderr :: "env \<Rightarrow> string \<Rightarrow> string" where
  "error_message_from_stderr E stderr =
     (if str_in permission_signature stderr then permission_hint E else [])"

definition initial :: st where
  "initial = \<lparr>trace = [], proc = None\<rparr>"

definition run_command :: "env \<Rightarrow> string list \<Rightarrow> ((exn + unit) \<times> st) option" where
  "run_command E args =
     try_except
       (andthen (run_command_internal E args) (\<lambda>h.
        seq (set_proc h)
       (andthen (communicate E h) (\<lambda>(stdout, stderr).
        if returncode (snd h) = 0 then
          terminal_info (''oras command successful: '' @ stdout)
        else
          terminal_error (''oras command failed: '' @ stderr @ nl @ error_message_from_stderr E stderr)))))
       (seq terminate_proc
            (terminal_error ''oras command cancelled by user.''))
       (\<lambda>e. seq terminate_proc
            (terminal_error (''oras command failed with unknown exception: '' @ exc_str E e)))
       initial"

subsection \<open>\<^verbatim>\<open>pull_uenv\<close>\<close>

text \<open>
  Lines 94 to 98: from the standard output of the discovery to the digest.
  \<^verbatim>\<open>manifests = json.loads(stdout)["manifests"]\<close>, the test of \<^verbatim>\<open>len(manifests)\<close>, and
  \<^verbatim>\<open>digest = manifests[0]["digest"]\<close>.
\<close>

definition select_digest :: "env \<Rightarrow> string \<Rightarrow> json prog" where
  "select_digest E stdout =
     andthen (lift (case json_loads E stdout of
                      None \<Rightarrow> Inl JSONDecodeError
                    | Some v \<Rightarrow> getitem_str v ''manifests'')) (\<lambda>manifests.
     andthen (lift (py_len manifests)) (\<lambda>n.
     seq (if n = 0 then terminal_error ''no meta data is available'' else ret ())
    (andthen (lift (getitem0 manifests)) (\<lambda>m.
     lift (getitem_str m ''digest'')))))"

text \<open>Lines 78 to 102: the meta data, behind \<^verbatim>\<open>if pull_meta\<close>.\<close>

definition pull_meta_step :: "env \<Rightarrow> string \<Rightarrow> string \<Rightarrow> string \<Rightarrow> unit prog" where
  "pull_meta_step E source_address tag image_path =
     seq (if path_exists E (image_path @ ''/meta'') then
            seq (emit (Rmtree (image_path @ ''/meta'')))
           (seq (emit (Sleep (1 / 20)))
                (checkpoint E (GraceSleep (image_path @ ''/meta''))))
          else ret ())
    (seq (terminal_info ''discovering meta data'')
    (andthen (run_command_internal E
        [''discover'', ''-o'', ''json'', ''--artifact-type'', ''uenv/meta'',
         source_address @ '':'' @ tag]) (\<lambda>h.
     seq (set_proc h)
    (andthen (communicate E h) (\<lambda>(stdout, stderr).
     seq (if returncode (snd h) = 0 then
            terminal_info (''successfully downloaded meta data info: '' @ stdout)
          else
            terminal_error (''failed to find meta data: '' @ stderr @ nl @
                            error_message_from_stderr E stderr))
    (andthen (select_digest E stdout) (\<lambda>digest.
     seq (terminal_info (''meta data digest: '' @ fmt E digest))
    (andthen (run_command_internal E
        [''pull'', ''-o'', image_path, source_address @ ''@'' @ fmt E digest]) (\<lambda>h2.
     seq (set_proc h2)
    (andthen (communicate E h2) (\<lambda>(stdout, stderr).
     ret ())))))))))))"

text \<open>Lines 117 to 123: the body of the monitoring loop, at its i-th round.\<close>

definition monitor_tick :: "env \<Rightarrow> nat \<Rightarrow> nat \<Rightarrow> unit prog" where
  "monitor_tick E target_size i =
     seq (emit (Sleep (1 / 4)))
    (seq (checkpoint E (TickSleep i))
    (case sqfs_size E i of
       None \<Rightarrow> ret ()
     | Some current_size \<Rightarrow>
         if is_tty E then
           (let current_mb = of_nat current_size / (1024 * 1024) :: rat;
                total_mb = of_nat target_size / (1024 * 1024) :: rat
            in if total_mb = 0 then throw (Exc ZeroDivisionError)
               else progress_bar (current_mb / total_mb) 50
                      (str_nat (nat \<lfloor>current_mb\<rfloor>) @ ''/'' @
                       str_nat (nat \<lfloor>total_mb\<rfloor>) @ '' MB''))
         else ret ()))"

text \<open>Line 116: \<^verbatim>\<open>while proc.poll() is None\<close>.\<close>

partial_function (option) monitor ::
  "env \<Rightarrow> child \<Rightarrow> nat \<Rightarrow> nat \<Rightarrow> st \<Rightarrow> ((exn + unit) \<times> st) option" where
  "monitor E c target_size i s =
     (if running c i then
        (case monitor_tick E target_size i s of
           None \<Rightarrow> None
         | Some (Inl e, s') \<Rightarrow> Some (Inl e, s')
         | Some (Inr u, s') \<Rightarrow> monitor E c target_size (Suc i) s')
      else Some (Inr (), s))"

text \<open>Lines 104 to 132: the image, behind \<^verbatim>\<open>if pull_sqfs\<close>.\<close>

definition pull_sqfs_step :: "env \<Rightarrow> string \<Rightarrow> string \<Rightarrow> string \<Rightarrow> nat \<Rightarrow> unit prog" where
  "pull_sqfs_step E source_address tag image_path target_size =
     (let sqfs_path = image_path @ ''/store.squashfs'' in
      seq (if path_exists E sqfs_path then
             seq (emit (Remove sqfs_path))
            (seq (emit (Sleep (1 / 20)))
                 (checkpoint E (GraceSleep sqfs_path)))
           else ret ())
     (andthen (run_command_internal E
         [''pull'', ''-o'', image_path, source_address @ '':'' @ tag]) (\<lambda>h.
      seq (set_proc h)
     (seq (monitor E (snd h) target_size 0)
     (andthen (communicate E h) (\<lambda>(stdout, stderr).
      if returncode (snd h) = 0 then
        seq (progress_bar 1 50
               (str_nat (nat \<lfloor>of_nat target_size / (1024 * 1024) :: rat\<rfloor>) @ ''/'' @
                str_nat (nat \<lfloor>of_nat target_size / (1024 * 1024) :: rat\<rfloor>) @ '' MB''))
       (seq (terminal_stdout [])
            (terminal_info (''oras command successful: '' @ stdout)))
      else
        terminal_error (''image pull failed: '' @ stderr @ nl @
                        error_message_from_stderr E stderr)))))))"

text \<open>Lines 74 to 132: the body of the \<^verbatim>\<open>try\<close>.\<close>

definition pull_uenv_body ::
  "env \<Rightarrow> string \<Rightarrow> string \<Rightarrow> nat \<Rightarrow> bool \<Rightarrow> bool \<Rightarrow> unit prog" where
  "pull_uenv_body E source_address image_path target_size pull_meta pull_sqfs =
     (let terms = rsplit1 source_address (CHR '':'') in
      andthen (lift (nth_py terms 0)) (\<lambda>source_address.
      andthen (lift (nth_py terms 1)) (\<lambda>tag.
      seq (if pull_meta then pull_meta_step E source_address tag image_path else ret ())
          (if pull_sqfs then pull_sqfs_step E source_address tag image_path target_size
           else ret ()))))"

text \<open>
  The whole function, started with an empty trace and \<^verbatim>\<open>proc\<close> unbound. The result is
  how the call ends (\<open>Inr ()\<close>: it returns; \<open>Inl SystemExit\<close>: a reported failure ended
  it; \<open>Inl (Exc e)\<close>: the exception leaves the function) and the final state; \<open>None\<close>
  is a call that never ends.
\<close>

definition pull_uenv ::
  "env \<Rightarrow> string \<Rightarrow> string \<Rightarrow> nat \<Rightarrow> bool \<Rightarrow> bool \<Rightarrow> ((exn + unit) \<times> st) option" where
  "pull_uenv E source_address image_path target_size pull_meta pull_sqfs =
     try_except
       (pull_uenv_body E source_address image_path target_size pull_meta pull_sqfs)
       (seq terminate_proc
       (seq (terminal_stdout [])
            (terminal_error ''image pull cancelled by user.'')))
       (\<lambda>e. seq terminate_proc
       (seq (terminal_stdout [])
            (terminal_error (''image pull failed with unknown exception: '' @ exc_str E e))))
       initial"

section \<open>Observations on a call\<close>

text \<open>The kinds of event a property singles out of a trace.\<close>

definition is_launch :: "event \<Rightarrow> bool" where
  "is_launch ev = (case ev of Launch _ \<Rightarrow> True | _ \<Rightarrow> False)"

definition is_progress :: "event \<Rightarrow> bool" where
  "is_progress ev = (case ev of Progress _ _ _ \<Rightarrow> True | _ \<Rightarrow> False)"

definition is_error :: "event \<Rightarrow> bool" where
  "is_error ev = (case ev of Error _ \<Rightarrow> True | _ \<Rightarrow> False)"

definition events_of :: "((exn + unit) \<times> st) option \<Rightarrow> event list" where
  "events_of r = (case r of None \<Rightarrow> [] | Some (_, s) \<Rightarrow> trace s)"

definition outcome_of :: "((exn + unit) \<times> st) option \<Rightarrow> (exn + unit) option" where
  "outcome_of r = map_option fst r"

text \<open>
  The executable \<^verbatim>\<open>find_oras\<close> settles on, if any, and what it prints on the way: the
  two read the environment as the function does, without the state.
\<close>

definition oras_path :: "env \<Rightarrow> string option" where
  "oras_path E =
     (if oras_file_is_file E then Some (oras_file E)
      else case which_oras E of
             None \<Rightarrow> None
           | Some f \<Rightarrow> if f = [] then None else Some f)"

definition find_log :: "env \<Rightarrow> event list" where
  "find_log E =
     Info (''searching for oras executable: '' @ oras_file E) #
     (if oras_file_is_file E then [Info (''using '' @ oras_file E)]
      else Info (oras_file E @ '' does not exist - searching for oras'') #
           (case oras_path E of
              None \<Rightarrow> [Error ''no oras executable found'']
            | Some f \<Rightarrow> [Info (''using '' @ f)]))"

text \<open>The events of the cleanup before the discovery, and the arguments of the discovery.\<close>

definition cleanup_meta :: "env \<Rightarrow> string \<Rightarrow> event list" where
  "cleanup_meta E image_path =
     (if path_exists E (image_path @ ''/meta'')
      then [Rmtree (image_path @ ''/meta''), Sleep (1 / 20)] else [])"

definition discover_args :: "string \<Rightarrow> string \<Rightarrow> string list" where
  "discover_args base tag =
     [''discover'', ''-o'', ''json'', ''--artifact-type'', ''uenv/meta'', base @ '':'' @ tag]"

text \<open>
  The label of a progress line for a file of \<open>current_size\<close> bytes out of
  \<open>target_size\<close>, and the events of the i-th round of the monitoring loop when nothing
  interrupts it.
\<close>

definition label :: "nat \<Rightarrow> nat \<Rightarrow> string" where
  "label current_size target_size =
     str_nat (current_size div 1048576) @ ''/'' @ str_nat (target_size div 1048576) @ '' MB''"

definition tick_log :: "env \<Rightarrow> nat \<Rightarrow> nat \<Rightarrow> event list" where
  "tick_log E target_size i =
     Sleep (1 / 4) #
     (case sqfs_size E i of
        None \<Rightarrow> []
      | Some current_size \<Rightarrow>
          if is_tty E
          then [Progress (of_nat current_size / of_nat target_size) 50 (label current_size target_size)]
          else [])"




text \<open>The events of the cleanup before the image pull, and the arguments of a pull.\<close>

definition cleanup_sqfs :: "env \<Rightarrow> string \<Rightarrow> event list" where
  "cleanup_sqfs E image_path =
     (if path_exists E (image_path @ ''/store.squashfs'')
      then [Remove (image_path @ ''/store.squashfs''), Sleep (1 / 20)] else [])"

definition pull_args :: "string \<Rightarrow> string \<Rightarrow> string list" where
  "pull_args image_path ref = [''pull'', ''-o'', image_path, ref]"

section \<open>Sample environments\<close>

text \<open>A child that is seen running by the first \<open>n\<close> polls and then has exited.\<close>

definition finished :: "string \<Rightarrow> string \<Rightarrow> int \<Rightarrow> nat \<Rightarrow> child" where
  "finished out err rc n =
     \<lparr>stdout_text = out, stderr_text = err, returncode = rc, running = (\<lambda>i. i < n)\<rparr>"

definition sample_json :: string where
  \<open>sample_json = ''{"manifests":[{"digest":"sha256:abc"},{"digest":"sha256:def"}]}''\<close>

definition empty_json :: string where
  \<open>empty_json = ''{"manifests":[]}''\<close>

text \<open>A decoder that knows the two texts above, and raises on every other text.\<close>

definition sample_loads :: "string \<Rightarrow> json option" where
  "sample_loads s =
     (if s = sample_json then
        Some (JObj [(''manifests'',
                JArr [JObj [(''digest'', JStr ''sha256:abc'')],
                      JObj [(''digest'', JStr ''sha256:def'')]])])
      else if s = empty_json then Some (JObj [(''manifests'', JArr [])])
      else None)"

definition is_discover :: "string list \<Rightarrow> bool" where
  "is_discover cmd = (case cmd of _ # sub # _ \<Rightarrow> sub = ''discover'' | _ \<Rightarrow> False)"

text \<open>
  The client is installed next to the module, nothing is on disk, nobody interrupts, the
  output is not a terminal; the discovery answers with two manifests, and each pull
  exits with code 0 before the first poll.
\<close>

definition env_ok :: env where
  "env_ok =
     \<lparr>oras_file = ''/opt/uenv/libexec/uenv-oras'', oras_file_is_file = True,
      which_oras = None,
      popen = (\<lambda>cmd. Inr (if is_discover cmd then finished sample_json [] 0 0
                           else finished ''Pulled'' [] 0 0)),
      interrupted = (\<lambda>pt. False), path_exists = (\<lambda>p. False),
      sqfs_size = (\<lambda>i. None), is_tty = False, json_loads = sample_loads,
      py_str = (\<lambda>v. []), exc_str = (\<lambda>e. []), colorize = (\<lambda>s c. s)\<rparr>"

text \<open>The discovery finds no manifest.\<close>

definition env_empty :: env where
  "env_empty =
     env_ok\<lparr>popen := (\<lambda>cmd. Inr (if is_discover cmd then finished empty_json [] 0 0
                                else finished ''Pulled'' [] 0 0))\<rparr>"

text \<open>The pull of the meta data (the one by digest) exits with code 1.\<close>

definition env_meta_fail :: env where
  "env_meta_fail =
     env_ok\<lparr>popen := (\<lambda>cmd. Inr (if is_discover cmd then finished sample_json [] 0 0
                           else if CHR ''@'' \<in> set (last cmd) then finished [] ''denied'' 1 0
                           else finished ''Pulled'' [] 0 0))\<rparr>"

text \<open>
  A meta directory is on disk, and the user interrupts during the pause that follows
  its removal.
\<close>

definition env_interrupt :: env where
  "env_interrupt =
     env_ok\<lparr>path_exists := (\<lambda>p. p = ''/img/meta''),
            interrupted := (\<lambda>pt. pt = GraceSleep ''/img/meta'')\<rparr>"

text \<open>Neither \<^verbatim>\<open>uenv-oras\<close> next to the module nor \<^verbatim>\<open>oras\<close> on the search path.\<close>

definition env_no_oras :: env where
  "env_no_oras = env_ok\<lparr>oras_file_is_file := False, which_oras := None\<rparr>"

text \<open>The operating system refuses every spawn.\<close>

definition env_refused :: env where
  "env_refused =
     env_ok\<lparr>popen := (\<lambda>cmd. Inl (OSError ''Permission denied'')),
            exc_str := (\<lambda>e. case e of OSError m \<Rightarrow> m | _ \<Rightarrow> [])\<rparr>"

text \<open>Every child exits with code 1 and the registry's permission message.\<close>

definition denied_text :: string where
  "denied_text = ''Error: client does not have permission for manifest: denied''"

definition env_denied :: env where
  "env_denied = env_ok\<lparr>popen := (\<lambda>cmd. Inr (finished [] denied_text 1 0))\<rparr>"

text \<open>
  The image is pulled while the output is not a terminal: the child is seen running by
  three polls, and the watched file grows by 25 MB a round.
\<close>

definition env_silent :: env where
  "env_silent =
     env_ok\<lparr>popen := (\<lambda>cmd. Inr (finished ''Pulled'' [] 0 3)),
            sqfs_size := (\<lambda>i. Some ((i + 1) * 26214400))\<rparr>"

text \<open>
  The spec's scenario: a terminal, an expected total of 100 MB, and a file that grows
  from 25 MB to 100 MB over the four rounds the child is seen running.
\<close>

definition env_progress :: env where
  "env_progress =
     env_ok\<lparr>popen := (\<lambda>cmd. Inr (finished ''Pulled'' [] 0 4)),
            sqfs_size := (\<lambda>i. Some ((i + 1) * 26214400)),
            is_tty := True\<rparr>"

text \<open>
  The image transfer exits with code 0 before the first poll, and the interrupt arrives
  while \<^verbatim>\<open>communicate()\<close> collects its output.
\<close>

definition env_late_interrupt :: env where
  "env_late_interrupt =
     env_ok\<lparr>interrupted :=
       (\<lambda>pt. pt = Waiting [''/opt/uenv/libexec/uenv-oras'', ''pull'', ''-o'', ''/img'',
                              ''registry/app:v1''])\<rparr>"

section \<open>Properties\<close>

lemmas prog_defs = ret_def throw_def andthen_def seq_def emit_def lift_def set_proc_def
  checkpoint_def try_except_def except_Exception_def terminal_error_def terminal_info_def
  terminal_stdout_def progress_bar_def communicate_def terminate_proc_def

lemmas model_defs = pull_uenv_def pull_uenv_body_def pull_meta_step_def pull_sqfs_step_def
  select_digest_def run_command_internal_def find_oras_def run_command_def monitor_tick_def
  error_message_from_stderr_def permission_signature_def permission_hint_def nth_py_def
  rsplit1_def fmt_def nl_def initial_def Let_def

lemmas sample_defs = env_ok_def env_empty_def env_meta_fail_def env_interrupt_def
  env_no_oras_def env_refused_def env_denied_def denied_text_def env_silent_def
  env_progress_def env_late_interrupt_def finished_def sample_json_def empty_json_def sample_loads_def is_discover_def

lemmas observe_defs = events_of_def outcome_of_def is_launch_def is_progress_def is_error_def

subsection \<open>Splitting the address\<close>

lemma rsplit1_base_tag: "c \<notin> set tag \<Longrightarrow> rsplit1 (base @ c # tag) c = [base, tag]"
proof -
  assume a: "c \<notin> set tag"
  then have d: "dropWhile (\<lambda>x. x \<noteq> c) (rev tag @ c # rev base) = c # rev base"
    by (auto simp: dropWhile_append3)
  from a have t: "takeWhile (\<lambda>x. x \<noteq> c) (rev tag @ c # rev base) = rev tag"
    by (auto simp: takeWhile_tail)
  show ?thesis using d t by (simp add: rsplit1_def)
qed

lemma rsplit1_no_sep: "c \<notin> set s \<Longrightarrow> rsplit1 s c = [s]"
proof -
  assume "c \<notin> set s"
  then have d: "dropWhile (\<lambda>x. x \<noteq> c) (rev s) = []"
    by (auto simp: dropWhile_eq_Nil_conv)
  show ?thesis unfolding rsplit1_def d by simp
qed

lemma split_last: "c \<in> set s \<Longrightarrow> \<exists>base tag. s = base @ c # tag \<and> c \<notin> set tag"
  by (metis split_list_last)

lemma body_split:
  assumes "CHR '':'' \<notin> set tag"
  shows "pull_uenv_body E (base @ CHR '':'' # tag) ip ts pm ps =
           seq (if pm then pull_meta_step E base tag ip else ret ())
               (if ps then pull_sqfs_step E base tag ip ts else ret ())"
proof -
  have "rsplit1 (base @ CHR '':'' # tag) (CHR '':'') = [base, tag]"
    using rsplit1_base_tag [OF assms, of base] by simp
  then show ?thesis
    by (simp add: pull_uenv_body_def nth_py_def lift_def andthen_def ret_def fun_eq_iff)
qed

text \<open>
  An address \<open>base:tag\<close>, whose tag has no colon, is split at its last colon into
  exactly \<open>base\<close> and \<open>tag\<close>, also when \<open>base\<close> has colons of its own, and these
  are the two values the rest of the call works with.
\<close>

lemma split_recovers_base_and_tag:
  assumes "CHR '':'' \<notin> set tag"
  shows "rsplit1 (base @ '':'' @ tag) (CHR '':'') = [base, tag] \<and>
         pull_uenv_body E (base @ '':'' @ tag) ip ts pm ps =
           seq (if pm then pull_meta_step E base tag ip else ret ())
               (if ps then pull_sqfs_step E base tag ip ts else ret ())"
  using rsplit1_base_tag [OF assms, of base] body_split [OF assms, of E base ip ts pm ps]
  by simp

text \<open>
  No statement of the function tests the address. With no colon in it, \<^verbatim>\<open>terms[1]\<close>
  raises \<^verbatim>\<open>IndexError\<close> at line 76; the handler of \<^verbatim>\<open>Exception\<close> means to report it,
  but starts with \<^verbatim>\<open>proc.terminate()\<close> on the unbound \<^verbatim>\<open>proc\<close>, and the call ends
  with \<^verbatim>\<open>UnboundLocalError\<close> and an empty trace, whatever the environment and the two
  flags are.
\<close>

lemma no_colon_crashes:
  assumes "CHR '':'' \<notin> set addr"
  shows "pull_uenv E addr ip ts pm ps =
           Some (Inl (Exc (UnboundLocalError ''proc'')), \<lparr>trace = [], proc = None\<rparr>)"
  using assms
  by (simp add: pull_uenv_def pull_uenv_body_def rsplit1_no_sep nth_py_def prog_defs
      initial_def)

text \<open>
  C8. The address \<^verbatim>\<open>registry/app\<close> has no colon. The call launches nothing, and it
  does not reject the address either: it reports no failure (the trace has no event at
  all, so neither the line break nor \<^verbatim>\<open>image pull failed with unknown exception\<close> of
  lines 140 and 141 is written) and is left by the \<^verbatim>\<open>UnboundLocalError\<close> of its own
  handler. The other half of the claim holds: an address with a colon is split at the
  last one, as \<open>split_recovers_base_and_tag\<close> has it and the first conjunct shows on an
  address whose base has a colon of its own.
\<close>

theorem address_without_colon_crashes:
  "rsplit1 ''registry:443/app:v1'' (CHR '':'') = [''registry:443/app'', ''v1''] \<and>
   CHR '':'' \<notin> set ''registry/app'' \<and>
   pull_uenv env_ok ''registry/app'' ''/img'' 0 True True =
     Some (Inl (Exc (UnboundLocalError ''proc'')), \<lparr>trace = [], proc = None\<rparr>) \<and>
   filter is_error (events_of (pull_uenv env_ok ''registry/app'' ''/img'' 0 True True)) = []"
proof -
  have a: "rsplit1 ''registry:443/app:v1'' (CHR '':'') = [''registry:443/app'', ''v1'']"
    using split_recovers_base_and_tag [of "''v1''" "''registry:443/app''"] by simp
  have b: "CHR '':'' \<notin> set ''registry/app''"
    by simp
  have c: "pull_uenv env_ok ''registry/app'' ''/img'' 0 True True =
     Some (Inl (Exc (UnboundLocalError ''proc'')), \<lparr>trace = [], proc = None\<rparr>)"
    using no_colon_crashes [OF b] .
  from a b c show ?thesis by (simp add: events_of_def)
qed

text \<open>
  C10. With both flags off and a colon in the address, the call returns with the trace
  empty and \<^verbatim>\<open>proc\<close> unbound: no process launched, nothing removed, nothing printed.
\<close>

theorem no_flags_no_effect:
  assumes "CHR '':'' \<in> set addr"
  shows "pull_uenv E addr ip ts False False = Some (Inr (), \<lparr>trace = [], proc = None\<rparr>)"
proof -
  from assms obtain base tag where "addr = base @ CHR '':'' # tag" "CHR '':'' \<notin> set tag"
    using split_last by metis
  then show ?thesis
    by (simp add: pull_uenv_def body_split prog_defs initial_def)
qed

theorem no_flags_no_effect_witness:
  "CHR '':'' \<in> set ''registry/app:v1'' \<and>
   pull_uenv env_ok ''registry/app:v1'' ''/img'' 0 False False =
     Some (Inr (), \<lparr>trace = [], proc = None\<rparr>)"
  using no_flags_no_effect [of "''registry/app:v1''" env_ok "''/img''" 0]
  by simp

subsection \<open>Launching the client\<close>

lemma find_oras_eq:
  "find_oras E s =
     Some (case oras_path E of None \<Rightarrow> Inl SystemExit | Some f \<Rightarrow> Inr f,
           s\<lparr>trace := trace s @ find_log E\<rparr>)"
  by (simp add: find_oras_def oras_path_def find_log_def prog_defs split: option.splits)

lemma find_log_no_launch: "filter is_launch (find_log E) = []"
  by (simp add: find_log_def is_launch_def split: option.splits)

lemma rci_not_found:
  "oras_path E = None \<Longrightarrow>
   run_command_internal E args s = Some (Inl SystemExit, s\<lparr>trace := trace s @ find_log E\<rparr>)"
  by (simp add: run_command_internal_def find_oras_eq prog_defs Let_def)

lemma rci_interrupted:
  "oras_path E = Some f \<Longrightarrow> interrupted E (Spawning (f # args)) \<Longrightarrow>
   run_command_internal E args s =
     Some (Inl KeyboardInterrupt,
           s\<lparr>trace := trace s @ find_log E @ [Info (''calling oras: '' @ join_sp (f # args))]\<rparr>)"
  by (simp add: run_command_internal_def find_oras_eq prog_defs Let_def)

lemma rci_refused:
  "oras_path E = Some f \<Longrightarrow> \<not> interrupted E (Spawning (f # args)) \<Longrightarrow>
   popen E (f # args) = Inl e \<Longrightarrow>
   run_command_internal E args s =
     Some (Inl SystemExit,
           s\<lparr>trace := trace s @ find_log E @
              [Info (''calling oras: '' @ join_sp (f # args)),
               Error (''an unknown error occured with the oras client: '' @ exc_str E e)]\<rparr>)"
  by (simp add: run_command_internal_def find_oras_eq prog_defs Let_def)

lemma rci_launched:
  "oras_path E = Some f \<Longrightarrow> \<not> interrupted E (Spawning (f # args)) \<Longrightarrow>
   popen E (f # args) = Inr c \<Longrightarrow>
   run_command_internal E args s =
     Some (Inr (f # args, c),
           s\<lparr>trace := trace s @ find_log E @
              [Info (''calling oras: '' @ join_sp (f # args)), Launch (f # args)]\<rparr>)"
  by (simp add: run_command_internal_def find_oras_eq prog_defs Let_def)

subsection \<open>From the discovery to the digest\<close>

lemma select_digest_empty:
  assumes "json_loads E out = Some v"
    and "getitem_str v ''manifests'' = Inr (JArr [])"
  shows "select_digest E out s =
           Some (Inl SystemExit, s\<lparr>trace := trace s @ [Error ''no meta data is available'']\<rparr>)"
  using assms by (simp add: select_digest_def prog_defs)

text \<open>
  C1. When the standard output of the discovery decodes to an object whose
  \<^verbatim>\<open>manifests\<close> is a list with a first entry \<open>m\<close>, the digest the discovery step
  hands on is \<^verbatim>\<open>m["digest"]\<close>, with the state untouched, whatever the later entries
  \<open>ms\<close> are. The witness is the spec's scenario: of the two manifests
  \<^verbatim>\<open>sha256:abc\<close> and \<^verbatim>\<open>sha256:def\<close> the first is selected, and it is the one the
  pull of the meta data is launched with.
\<close>

theorem first_manifest_selected:
  assumes "json_loads E out = Some v"
    and "getitem_str v ''manifests'' = Inr (JArr (m # ms))"
  shows "select_digest E out s = lift (getitem_str m ''digest'') s"
  using assms by (simp add: select_digest_def prog_defs split: sum.splits)

theorem first_manifest_selected_witness:
  "json_loads env_ok sample_json =
     Some (JObj [(''manifests'',
             JArr [JObj [(''digest'', JStr ''sha256:abc'')],
                   JObj [(''digest'', JStr ''sha256:def'')]])]) \<and>
   select_digest env_ok sample_json initial = Some (Inr (JStr ''sha256:abc''), initial) \<and>
   filter is_launch (events_of (pull_uenv env_ok ''registry/app:v1'' ''/img'' 0 True False)) =
     [Launch [''/opt/uenv/libexec/uenv-oras'', ''discover'', ''-o'', ''json'',
              ''--artifact-type'', ''uenv/meta'', ''registry/app:v1''],
      Launch [''/opt/uenv/libexec/uenv-oras'', ''pull'', ''-o'', ''/img'',
              ''registry/app@sha256:abc'']]"
proof -
  have d: "json_loads env_ok sample_json =
     Some (JObj [(''manifests'',
             JArr [JObj [(''digest'', JStr ''sha256:abc'')],
                   JObj [(''digest'', JStr ''sha256:def'')]])])"
    by (simp add: env_ok_def sample_loads_def)
  have g: "getitem_str (JObj [(''manifests'',
             JArr [JObj [(''digest'', JStr ''sha256:abc'')],
                   JObj [(''digest'', JStr ''sha256:def'')]])]) ''manifests'' =
           Inr (JArr (JObj [(''digest'', JStr ''sha256:abc'')] #
                      [JObj [(''digest'', JStr ''sha256:def'')]]))"
    by simp
  have s: "select_digest env_ok sample_json initial = Some (Inr (JStr ''sha256:abc''), initial)"
    using first_manifest_selected [OF d g, of initial] by (simp add: lift_def ret_def)
  have l: "filter is_launch (events_of (pull_uenv env_ok ''registry/app:v1'' ''/img'' 0 True False)) =
     [Launch [''/opt/uenv/libexec/uenv-oras'', ''discover'', ''-o'', ''json'',
              ''--artifact-type'', ''uenv/meta'', ''registry/app:v1''],
      Launch [''/opt/uenv/libexec/uenv-oras'', ''pull'', ''-o'', ''/img'',
              ''registry/app@sha256:abc'']]"
    by (simp add: model_defs prog_defs sample_defs observe_defs)
  from d s l show ?thesis by simp
qed

lemma discovery_failure:
  assumes "CHR '':'' \<notin> set tag"
    and "oras_path E = Some f"
    and "\<not> interrupted E (GraceSleep (ip @ ''/meta''))"
    and "\<not> interrupted E (Spawning (f # discover_args base tag))"
    and "popen E (f # discover_args base tag) = Inr c"
    and "\<not> interrupted E (Waiting (f # discover_args base tag))"
    and "returncode c \<noteq> 0"
  shows "pull_uenv E (base @ '':'' @ tag) ip ts True ps =
           Some (Inl SystemExit,
                 \<lparr>trace = cleanup_meta E ip @ [Info ''discovering meta data''] @ find_log E @
                    [Info (''calling oras: '' @ join_sp (f # discover_args base tag)),
                     Launch (f # discover_args base tag),
                     Error (''failed to find meta data: '' @ stderr_text c @ nl @
                            error_message_from_stderr E (stderr_text c))],
                  proc = Some (f # discover_args base tag, c)\<rparr>)"
  using assms
  by (simp add: pull_uenv_def body_split pull_meta_step_def
      rci_launched [unfolded discover_args_def] cleanup_meta_def
      discover_args_def initial_def prog_defs)

text \<open>
  C2. The discovery was launched and ran uninterrupted, and its standard output decodes
  to an object whose \<^verbatim>\<open>manifests\<close> is the empty list. Then the call is ended by a
  reported failure of the discovery, which is the last event of the trace:
  \<^verbatim>\<open>no meta data is available\<close> after an exit code 0 (after any other exit code the
  call has already failed on that code, before decoding). The discovery is the only
  process the call has launched: no pull follows, also when the image was asked for.
\<close>

theorem empty_manifests_abort:
  assumes "CHR '':'' \<notin> set tag"
    and "oras_path E = Some f"
    and "\<not> interrupted E (GraceSleep (ip @ ''/meta''))"
    and "\<not> interrupted E (Spawning (f # discover_args base tag))"
    and "popen E (f # discover_args base tag) = Inr c"
    and "\<not> interrupted E (Waiting (f # discover_args base tag))"
    and "json_loads E (stdout_text c) = Some v"
    and "getitem_str v ''manifests'' = Inr (JArr [])"
  shows "outcome_of (pull_uenv E (base @ '':'' @ tag) ip ts True ps) = Some (Inl SystemExit) \<and>
         last (events_of (pull_uenv E (base @ '':'' @ tag) ip ts True ps)) =
           Error (if returncode c = 0 then ''no meta data is available''
                  else ''failed to find meta data: '' @ stderr_text c @ nl @
                       error_message_from_stderr E (stderr_text c)) \<and>
         filter is_launch (events_of (pull_uenv E (base @ '':'' @ tag) ip ts True ps)) =
           [Launch (f # discover_args base tag)]"
proof (cases "returncode c = 0")
  case True
  have "pull_uenv E (base @ '':'' @ tag) ip ts True ps =
           Some (Inl SystemExit,
                 \<lparr>trace = cleanup_meta E ip @ [Info ''discovering meta data''] @ find_log E @
                    [Info (''calling oras: '' @ join_sp (f # discover_args base tag)),
                     Launch (f # discover_args base tag),
                     Info (''successfully downloaded meta data info: '' @ stdout_text c),
                     Error ''no meta data is available''],
                  proc = Some (f # discover_args base tag, c)\<rparr>)"
    using assms True
    by (simp add: pull_uenv_def body_split pull_meta_step_def
        rci_launched [unfolded discover_args_def] select_digest_empty cleanup_meta_def
        discover_args_def initial_def prog_defs)
  then show ?thesis using True
    by (simp add: observe_defs find_log_no_launch cleanup_meta_def)
next
  case False
  from discovery_failure [OF assms(1-6) False, where ts = ts and ps = ps]
  show ?thesis using False
    by (simp add: observe_defs find_log_no_launch cleanup_meta_def)
qed

theorem empty_manifests_abort_witness:
  "outcome_of (pull_uenv env_empty ''registry/app:v1'' ''/img'' 0 True True) =
     Some (Inl SystemExit) \<and>
   last (events_of (pull_uenv env_empty ''registry/app:v1'' ''/img'' 0 True True)) =
     Error ''no meta data is available'' \<and>
   filter is_launch (events_of (pull_uenv env_empty ''registry/app:v1'' ''/img'' 0 True True)) =
     [Launch [''/opt/uenv/libexec/uenv-oras'', ''discover'', ''-o'', ''json'',
              ''--artifact-type'', ''uenv/meta'', ''registry/app:v1'']]"
  using empty_manifests_abort
    [of "''v1''" env_empty "''/opt/uenv/libexec/uenv-oras''" "''/img''" "''registry/app''"
        "finished empty_json [] 0 0" "JObj [(''manifests'', JArr [])]" 0 True]
  by (simp add: sample_defs oras_path_def discover_args_def)

text \<open>
  C9. The client cannot be located (\<^verbatim>\<open>find_oras\<close> finds neither file), or it is located
  and \<^verbatim>\<open>Popen\<close> raises. Then \<^verbatim>\<open>run_command_internal\<close> hands no handle back: it ends
  in the exit of a reported failure, the message being the last event, with no launch
  recorded. Whatever statement \<open>k\<close> the caller has after the launch is not run, and a
  \<^verbatim>\<open>try\<close> around it with the two handlers of \<^verbatim>\<open>pull_uenv\<close> lets the exit pass.
\<close>

theorem launch_failure_is_fatal:
  assumes "oras_path E = None \<or>
           (\<exists>f e. oras_path E = Some f \<and> \<not> interrupted E (Spawning (f # args)) \<and>
                  popen E (f # args) = Inl e)"
  shows "\<exists>tr msg.
           filter is_launch tr = [] \<and>
           (msg = ''no oras executable found'' \<or>
            (\<exists>e. msg = ''an unknown error occured with the oras client: '' @ exc_str E e)) \<and>
           run_command_internal E args s =
             Some (Inl SystemExit, s\<lparr>trace := trace s @ tr @ [Error msg]\<rparr>) \<and>
           (\<forall>k :: handle \<Rightarrow> unit prog.
              andthen (run_command_internal E args) k s =
                Some (Inl SystemExit, s\<lparr>trace := trace s @ tr @ [Error msg]\<rparr>)) \<and>
           (\<forall>(k :: handle \<Rightarrow> unit prog) h1 h2.
              try_except (andthen (run_command_internal E args) k) h1 h2 s =
                Some (Inl SystemExit, s\<lparr>trace := trace s @ tr @ [Error msg]\<rparr>))"
  using assms
proof (elim disjE exE conjE)
  assume n: "oras_path E = None"
  have l: "find_log E =
             [Info (''searching for oras executable: '' @ oras_file E),
              Info (oras_file E @ '' does not exist - searching for oras'')] @
             [Error ''no oras executable found'']"
    using n by (simp add: find_log_def oras_path_def split: if_splits)
  have r: "run_command_internal E args s =
             Some (Inl SystemExit,
               s\<lparr>trace := trace s @
                  [Info (''searching for oras executable: '' @ oras_file E),
                   Info (oras_file E @ '' does not exist - searching for oras'')] @
                  [Error ''no oras executable found'']\<rparr>)"
    using rci_not_found [OF n, of args s] l by simp
  show ?thesis
    apply (rule exI [of _ "[Info (''searching for oras executable: '' @ oras_file E),
              Info (oras_file E @ '' does not exist - searching for oras'')]"])
    apply (rule exI [of _ "''no oras executable found''"])
    using r by (simp add: andthen_def try_except_def is_launch_def)
next
  fix f e
  assume f: "oras_path E = Some f" and i: "\<not> interrupted E (Spawning (f # args))"
    and p: "popen E (f # args) = Inl e"
  have r: "run_command_internal E args s =
             Some (Inl SystemExit,
               s\<lparr>trace := trace s @
                  (find_log E @ [Info (''calling oras: '' @ join_sp (f # args))]) @
                  [Error (''an unknown error occured with the oras client: '' @ exc_str E e)]\<rparr>)"
    using rci_refused [OF f i p, of s] by simp
  show ?thesis
    apply (rule exI [of _ "find_log E @ [Info (''calling oras: '' @ join_sp (f # args))]"])
    apply (rule exI [of _ "''an unknown error occured with the oras client: '' @ exc_str E e"])
    using r by (auto simp: andthen_def try_except_def find_log_no_launch is_launch_def)
qed

theorem launch_failure_is_fatal_witness:
  "oras_path env_no_oras = None \<and>
   pull_uenv env_no_oras ''registry/app:v1'' ''/img'' 0 False True =
     Some (Inl SystemExit,
       \<lparr>trace = [Info ''searching for oras executable: /opt/uenv/libexec/uenv-oras'',
                 Info ''/opt/uenv/libexec/uenv-oras does not exist - searching for oras'',
                 Error ''no oras executable found''],
        proc = None\<rparr>) \<and>
   popen env_refused [''/opt/uenv/libexec/uenv-oras'', ''pull'', ''-o'', ''/img'', ''registry/app:v1''] =
     Inl (OSError ''Permission denied'') \<and>
   pull_uenv env_refused ''registry/app:v1'' ''/img'' 0 False True =
     Some (Inl SystemExit,
       \<lparr>trace = [Info ''searching for oras executable: /opt/uenv/libexec/uenv-oras'',
                 Info ''using /opt/uenv/libexec/uenv-oras'',
                 Info ''calling oras: /opt/uenv/libexec/uenv-oras pull -o /img registry/app:v1'',
                 Error ''an unknown error occured with the oras client: Permission denied''],
        proc = None\<rparr>)"
proof -
  let ?args = "[''pull'', ''-o'', ''/img'', ''registry/app:v1'']"
  have n: "oras_path env_no_oras = None"
    by (simp add: oras_path_def sample_defs)
  have p: "popen env_refused (''/opt/uenv/libexec/uenv-oras'' # ?args) =
             Inl (OSError ''Permission denied'')"
    by (simp add: sample_defs)
  have f: "oras_path env_refused = Some ''/opt/uenv/libexec/uenv-oras''"
    by (simp add: oras_path_def sample_defs)
  have i: "\<not> interrupted env_refused (Spawning (''/opt/uenv/libexec/uenv-oras'' # ?args))"
    by (simp add: sample_defs)
  from launch_failure_is_fatal [of env_no_oras ?args initial] n
  obtain tr msg where
    a: "run_command_internal env_no_oras ?args initial =
          Some (Inl SystemExit, initial\<lparr>trace := trace initial @ tr @ [Error msg]\<rparr>)"
    by blast
  from launch_failure_is_fatal [of env_refused ?args initial] f i p
  obtain tr' msg' where
    b: "run_command_internal env_refused ?args initial =
          Some (Inl SystemExit, initial\<lparr>trace := trace initial @ tr' @ [Error msg']\<rparr>)"
    by blast
  have a': "run_command_internal env_no_oras ?args initial =
     Some (Inl SystemExit,
       \<lparr>trace = [Info ''searching for oras executable: /opt/uenv/libexec/uenv-oras'',
                 Info ''/opt/uenv/libexec/uenv-oras does not exist - searching for oras'',
                 Error ''no oras executable found''],
        proc = None\<rparr>)"
    by (simp add: model_defs prog_defs sample_defs)
  have b': "run_command_internal env_refused ?args initial =
     Some (Inl SystemExit,
       \<lparr>trace = [Info ''searching for oras executable: /opt/uenv/libexec/uenv-oras'',
                 Info ''using /opt/uenv/libexec/uenv-oras'',
                 Info ''calling oras: /opt/uenv/libexec/uenv-oras pull -o /img registry/app:v1'',
                 Error ''an unknown error occured with the oras client: Permission denied''],
        proc = None\<rparr>)"
    by (simp add: model_defs prog_defs sample_defs)
  have c: "pull_uenv env_no_oras ''registry/app:v1'' ''/img'' 0 False True =
     Some (Inl SystemExit,
       \<lparr>trace = [Info ''searching for oras executable: /opt/uenv/libexec/uenv-oras'',
                 Info ''/opt/uenv/libexec/uenv-oras does not exist - searching for oras'',
                 Error ''no oras executable found''],
        proc = None\<rparr>)"
    using a a' by (simp add: model_defs prog_defs sample_defs)
  have d: "pull_uenv env_refused ''registry/app:v1'' ''/img'' 0 False True =
     Some (Inl SystemExit,
       \<lparr>trace = [Info ''searching for oras executable: /opt/uenv/libexec/uenv-oras'',
                 Info ''using /opt/uenv/libexec/uenv-oras'',
                 Info ''calling oras: /opt/uenv/libexec/uenv-oras pull -o /img registry/app:v1'',
                 Error ''an unknown error occured with the oras client: Permission denied''],
        proc = None\<rparr>)"
    using b b' by (simp add: model_defs prog_defs sample_defs)
  from n p c d show ?thesis by simp
qed

subsection \<open>Classifying a failed child\<close>

lemma str_in_iff: "str_in sub s \<longleftrightarrow> (\<exists>a b. s = a @ sub @ b)"
proof (induction s)
  case Nil
  then show ?case by auto
next
  case (Cons x xs)
  show ?case
  proof
    assume "str_in sub (x # xs)"
    then consider "prefix sub (x # xs)" | "str_in sub xs" by auto
    then show "\<exists>a b. x # xs = a @ sub @ b"
    proof cases
      case 1
      then obtain b where "x # xs = sub @ b" by (auto simp: prefix_def)
      then have "x # xs = [] @ sub @ b" by simp
      then show ?thesis by blast
    next
      case 2
      with Cons obtain a b where "xs = a @ sub @ b" by auto
      then have "x # xs = (x # a) @ sub @ b" by simp
      then show ?thesis by blast
    qed
  next
    assume "\<exists>a b. x # xs = a @ sub @ b"
    then obtain a b where ab: "x # xs = a @ sub @ b" by auto
    show "str_in sub (x # xs)"
    proof (cases a)
      case Nil
      with ab have "prefix sub (x # xs)" by (simp add: prefix_def)
      then show ?thesis by simp
    next
      case (Cons y ys)
      with ab have "xs = ys @ sub @ b" by simp
      with Cons.IH have "str_in sub xs" by blast
      then show ?thesis by simp
    qed
  qed
qed

lemma permission_hint_nonempty: "permission_hint E \<noteq> []"
  by (simp add: permission_hint_def)

lemma hint_attached_iff:
  "error_message_from_stderr E err = permission_hint E \<longleftrightarrow>
     (\<exists>a b. err = a @ permission_signature @ b)"
  using permission_hint_nonempty [of E]
  by (auto simp: error_message_from_stderr_def str_in_iff)

lemma hint_empty_iff:
  "error_message_from_stderr E err = [] \<longleftrightarrow>
     \<not> (\<exists>a b. err = a @ permission_signature @ b)"
  using permission_hint_nonempty [of E]
  by (auto simp: error_message_from_stderr_def str_in_iff)

text \<open>
  C4. A child launched by \<^verbatim>\<open>run_command\<close> exits with a code other than 0. The call
  ends with a reported failure whose message is the fixed prefix, the captured standard
  error as it is, a line break, and the attached hint. The attached hint is the fixed
  permission hint exactly when the standard error contains
  \<^verbatim>\<open>client does not have permission for manifest\<close>, and is empty for every other
  standard error. The two failures of \<^verbatim>\<open>pull_uenv\<close> on an exit code build their
  message the same way (\<open>discovery_failure\<close>, \<open>sqfs_run\<close>).
\<close>

theorem hint_iff_permission_signature:
  assumes "oras_path E = Some f"
    and "\<not> interrupted E (Spawning (f # args))"
    and "popen E (f # args) = Inr c"
    and "\<not> interrupted E (Waiting (f # args))"
    and "returncode c \<noteq> 0"
  shows "outcome_of (run_command E args) = Some (Inl SystemExit) \<and>
         last (events_of (run_command E args)) =
           Error (''oras command failed: '' @ stderr_text c @ nl @
                  error_message_from_stderr E (stderr_text c)) \<and>
         (error_message_from_stderr E (stderr_text c) = permission_hint E \<longleftrightarrow>
            (\<exists>a b. stderr_text c = a @ permission_signature @ b)) \<and>
         (error_message_from_stderr E (stderr_text c) = [] \<longleftrightarrow>
            \<not> (\<exists>a b. stderr_text c = a @ permission_signature @ b))"
proof -
  have "run_command E args =
          Some (Inl SystemExit,
            \<lparr>trace = find_log E @
               [Info (''calling oras: '' @ join_sp (f # args)), Launch (f # args),
                Error (''oras command failed: '' @ stderr_text c @ nl @
                       error_message_from_stderr E (stderr_text c))],
             proc = Some (f # args, c)\<rparr>)"
    using assms by (simp add: run_command_def rci_launched initial_def prog_defs)
  then have "outcome_of (run_command E args) = Some (Inl SystemExit)"
    and "last (events_of (run_command E args)) =
           Error (''oras command failed: '' @ stderr_text c @ nl @
                  error_message_from_stderr E (stderr_text c))"
    by (simp_all add: observe_defs)
  then show ?thesis
    using hint_attached_iff [of E "stderr_text c"] hint_empty_iff [of E "stderr_text c"]
    by blast
qed

theorem hint_iff_permission_signature_witness:
  "outcome_of (run_command env_denied [''pull'', ''registry/app:v1'']) = Some (Inl SystemExit) \<and>
   last (events_of (run_command env_denied [''pull'', ''registry/app:v1''])) =
     Error (''oras command failed: Error: client does not have permission for manifest: denied'' @
            nl @ permission_hint env_denied) \<and>
   error_message_from_stderr env_ok ''connection refused'' = []"
proof -
  have h: "error_message_from_stderr env_denied denied_text = permission_hint env_denied"
    by (simp add: error_message_from_stderr_def permission_signature_def denied_text_def)
  have "outcome_of (run_command env_denied [''pull'', ''registry/app:v1'']) =
          Some (Inl SystemExit) \<and>
        last (events_of (run_command env_denied [''pull'', ''registry/app:v1''])) =
          Error (''oras command failed: '' @ stderr_text (finished [] denied_text 1 0) @ nl @
                 error_message_from_stderr env_denied
                   (stderr_text (finished [] denied_text 1 0)))"
    using hint_iff_permission_signature
      [of env_denied "''/opt/uenv/libexec/uenv-oras''" "[''pull'', ''registry/app:v1'']"
          "finished [] denied_text 1 0"]
    by (simp add: oras_path_def env_denied_def env_ok_def finished_def)
  moreover have "stderr_text (finished [] denied_text 1 0) = denied_text"
    by (simp add: finished_def)
  moreover have "error_message_from_stderr env_ok ''connection refused'' = []"
    by (simp add: error_message_from_stderr_def permission_signature_def)
  ultimately show ?thesis using h by (simp add: denied_text_def)
qed

subsection \<open>Two runs that end where the handlers and checks do not reach\<close>

text \<open>
  C3. The discovery succeeds and selects \<^verbatim>\<open>sha256:abc\<close>; the pull of the meta data
  then exits with code 1 and \<^verbatim>\<open>denied\<close> on its standard error. Lines 101 and 102
  collect the two streams and never read the exit code: the call goes on to pull the
  image, returns normally, and its trace holds no reported failure. The pull of the
  image does read its exit code (\<open>sqfs_run\<close>).
\<close>

theorem meta_pull_exit_code_ignored:
  "popen env_meta_fail
     [''/opt/uenv/libexec/uenv-oras'', ''pull'', ''-o'', ''/img'', ''registry/app@sha256:abc''] =
     Inr (finished [] ''denied'' 1 0) \<and>
   outcome_of (pull_uenv env_meta_fail ''registry/app:v1'' ''/img'' 0 True True) =
     Some (Inr ()) \<and>
   filter is_error (events_of (pull_uenv env_meta_fail ''registry/app:v1'' ''/img'' 0 True True)) =
     [] \<and>
   filter is_launch (events_of (pull_uenv env_meta_fail ''registry/app:v1'' ''/img'' 0 True True)) =
     [Launch [''/opt/uenv/libexec/uenv-oras'', ''discover'', ''-o'', ''json'',
              ''--artifact-type'', ''uenv/meta'', ''registry/app:v1''],
      Launch [''/opt/uenv/libexec/uenv-oras'', ''pull'', ''-o'', ''/img'',
              ''registry/app@sha256:abc''],
      Launch [''/opt/uenv/libexec/uenv-oras'', ''pull'', ''-o'', ''/img'',
              ''registry/app:v1'']]"
proof -
  have "pull_uenv env_meta_fail ''registry/app:v1'' ''/img'' 0 True True =
    Some (Inr (),
      \<lparr>trace =
         [Info ''discovering meta data'',
          Info ''searching for oras executable: /opt/uenv/libexec/uenv-oras'',
          Info ''using /opt/uenv/libexec/uenv-oras'',
          Info ''calling oras: /opt/uenv/libexec/uenv-oras discover -o json --artifact-type uenv/meta registry/app:v1'',
          Launch [''/opt/uenv/libexec/uenv-oras'', ''discover'', ''-o'', ''json'',
                  ''--artifact-type'', ''uenv/meta'', ''registry/app:v1''],
          Info (''successfully downloaded meta data info: '' @ sample_json),
          Info ''meta data digest: sha256:abc'',
          Info ''searching for oras executable: /opt/uenv/libexec/uenv-oras'',
          Info ''using /opt/uenv/libexec/uenv-oras'',
          Info ''calling oras: /opt/uenv/libexec/uenv-oras pull -o /img registry/app@sha256:abc'',
          Launch [''/opt/uenv/libexec/uenv-oras'', ''pull'', ''-o'', ''/img'',
                  ''registry/app@sha256:abc''],
          Info ''searching for oras executable: /opt/uenv/libexec/uenv-oras'',
          Info ''using /opt/uenv/libexec/uenv-oras'',
          Info ''calling oras: /opt/uenv/libexec/uenv-oras pull -o /img registry/app:v1'',
          Launch [''/opt/uenv/libexec/uenv-oras'', ''pull'', ''-o'', ''/img'',
                  ''registry/app:v1''],
          Progress 1 50 ''0/0 MB'', Stdout [],
          Info ''oras command successful: Pulled''],
       proc = Some ([''/opt/uenv/libexec/uenv-oras'', ''pull'', ''-o'', ''/img'',
                     ''registry/app:v1''], finished ''Pulled'' [] 0 0)\<rparr>)"
    by (simp add: model_defs prog_defs sample_defs monitor.simps str_nat.simps digit_char_def)
  then show ?thesis
    by (simp add: observe_defs env_meta_fail_def is_discover_def)
qed

text \<open>
  C7. A meta directory is on disk and the interrupt arrives during the pause after its
  removal, before any child was launched. The handler of \<^verbatim>\<open>KeyboardInterrupt\<close> starts
  with \<^verbatim>\<open>proc.terminate()\<close>, and \<^verbatim>\<open>proc\<close> is unbound: the call ends with
  \<^verbatim>\<open>UnboundLocalError\<close>, and neither the closing line break nor the report
  \<^verbatim>\<open>image pull cancelled by user.\<close> is written. Once \<^verbatim>\<open>proc\<close> is bound the
  handler does what it is written for: \<open>sqfs_interrupt\<close> has the termination, the
  line break and the report, in this order, for an interrupt in the monitoring loop.
\<close>

theorem interrupt_before_first_launch:
  "path_exists env_interrupt ''/img/meta'' \<and>
   interrupted env_interrupt (GraceSleep ''/img/meta'') \<and>
   pull_uenv env_interrupt ''registry/app:v1'' ''/img'' 0 True True =
     Some (Inl (Exc (UnboundLocalError ''proc'')),
           \<lparr>trace = [Rmtree ''/img/meta'', Sleep (1 / 20)], proc = None\<rparr>)"
  by (simp add: model_defs prog_defs sample_defs)

subsection \<open>The monitoring loop\<close>

lemma floor_mb: "nat \<lfloor>of_nat n / 1048576 :: rat\<rfloor> = n div 1048576"
proof -
  have "\<lfloor>of_nat n / of_nat 1048576 :: rat\<rfloor> = of_nat (n div 1048576)"
    by (rule floor_divide_of_nat_eq)
  then show ?thesis by simp
qed

lemma monitor_tick_ok:
  assumes "\<not> interrupted E (TickSleep i)" and "is_tty E \<longrightarrow> 0 < target_size"
  shows "monitor_tick E target_size i s =
           Some (Inr (), s\<lparr>trace := trace s @ tick_log E target_size i\<rparr>)"
  using assms
  by (auto simp: monitor_tick_def tick_log_def label_def floor_mb prog_defs Let_def
      split: option.splits)

lemma monitor_exits:
  assumes "\<forall>i<n. running c (k + i)" and "\<not> running c (k + n)"
    and "\<forall>i<n. \<not> interrupted E (TickSleep (k + i))"
    and "is_tty E \<longrightarrow> 0 < target_size"
  shows "monitor E c target_size k s =
           Some (Inr (), s\<lparr>trace := trace s @ concat (map (tick_log E target_size) [k..<k + n])\<rparr>)"
  using assms
proof (induction n arbitrary: k s)
  case 0
  then show ?case by (subst monitor.simps) simp
next
  case (Suc n)
  have r: "running c k" using Suc.prems(1) by (metis add.right_neutral zero_less_Suc)
  have ni: "\<not> interrupted E (TickSleep k)"
    using Suc.prems(3) by (metis add.right_neutral zero_less_Suc)
  have a: "\<forall>i<n. running c (Suc k + i)" using Suc.prems(1) by (metis add_Suc_shift Suc_less_eq)
  have b: "\<not> running c (Suc k + n)" using Suc.prems(2) by simp
  have c: "\<forall>i<n. \<not> interrupted E (TickSleep (Suc k + i))"
    using Suc.prems(3) by (metis add_Suc_shift Suc_less_eq)
  have ih: "monitor E c target_size (Suc k) (s\<lparr>trace := trace s @ tick_log E target_size k\<rparr>) =
    Some (Inr (), s\<lparr>trace := trace s @ tick_log E target_size k @
            concat (map (tick_log E target_size) [Suc k..<Suc k + n])\<rparr>)"
    using Suc.IH [OF a b c Suc.prems(4)] by simp
  have u: "[k..<Suc (k + n)] = k # [Suc k..<Suc (k + n)]"
    by (simp add: upt_conv_Cons)
  show ?case
    by (subst monitor.simps)
       (simp del: upt_Suc add: r monitor_tick_ok [OF ni Suc.prems(4)] ih u)
qed


text \<open>
  C6. A round of the monitoring loop on a terminal, with an expected total \<open>T > 0\<close> and
  a watched file of \<open>S\<close> bytes: after the pause, the renderer is called once, with the
  fraction \<open>S / T\<close> (the floats of the source read as exact rationals: both sizes are
  scaled by the same \<open>1024 * 1024\<close>), width 50 and the label in whole MB. Nothing
  clamps the fraction: it is above 1 whenever \<open>S > T\<close>.
\<close>

theorem tick_reports_unclamped_ratio:
  assumes "is_tty E" and "0 < target_size" and "sqfs_size E i = Some current_size"
    and "\<not> interrupted E (TickSleep i)"
  shows "monitor_tick E target_size i s =
           Some (Inr (),
             s\<lparr>trace := trace s @
                [Sleep (1 / 4),
                 Progress (of_nat current_size / of_nat target_size) 50
                   (label current_size target_size)]\<rparr>) \<and>
         (target_size < current_size \<longrightarrow>
            1 < (of_nat current_size / of_nat target_size :: rat))"
proof -
  have "monitor_tick E target_size i s =
          Some (Inr (), s\<lparr>trace := trace s @ tick_log E target_size i\<rparr>)"
    using monitor_tick_ok [of E i target_size s] assms by simp
  then show ?thesis using assms by (simp add: tick_log_def)
qed

theorem tick_reports_unclamped_ratio_witness:
  "monitor_tick env_progress 104857600 0 initial =
     Some (Inr (), initial\<lparr>trace := [Sleep (1 / 4), Progress (1 / 4) 50 ''25/100 MB'']\<rparr>) \<and>
   monitor_tick env_progress 104857600 7 initial =
     Some (Inr (), initial\<lparr>trace := [Sleep (1 / 4), Progress 2 50 ''200/100 MB'']\<rparr>) \<and>
   filter is_progress
     (events_of (pull_uenv env_progress ''registry/app:v1'' ''/img'' 104857600 False True)) =
     [Progress (1 / 4) 50 ''25/100 MB'', Progress (1 / 2) 50 ''50/100 MB'',
      Progress (3 / 4) 50 ''75/100 MB'', Progress 1 50 ''100/100 MB'',
      Progress 1 50 ''100/100 MB'']"
proof -
  have a: "monitor_tick env_progress 104857600 0 initial =
     Some (Inr (), initial\<lparr>trace := [Sleep (1 / 4), Progress (1 / 4) 50 ''25/100 MB'']\<rparr>)"
    using tick_reports_unclamped_ratio [of env_progress 104857600 0 26214400 initial]
    by (simp add: sample_defs label_def str_nat.simps digit_char_def initial_def)
  have b: "monitor_tick env_progress 104857600 7 initial =
     Some (Inr (), initial\<lparr>trace := [Sleep (1 / 4), Progress 2 50 ''200/100 MB'']\<rparr>)"
    using tick_reports_unclamped_ratio [of env_progress 104857600 7 209715200 initial]
    by (simp add: sample_defs label_def str_nat.simps digit_char_def initial_def)
  have c: "filter is_progress
     (events_of (pull_uenv env_progress ''registry/app:v1'' ''/img'' 104857600 False True)) =
     [Progress (1 / 4) 50 ''25/100 MB'', Progress (1 / 2) 50 ''50/100 MB'',
      Progress (3 / 4) 50 ''75/100 MB'', Progress 1 50 ''100/100 MB'',
      Progress 1 50 ''100/100 MB'']"
    by (simp add: model_defs prog_defs sample_defs observe_defs monitor.simps str_nat.simps
        digit_char_def)
  from a b c show ?thesis by simp
qed

subsection \<open>Progress lines when the output is not a terminal\<close>







































subsection \<open>Whole runs of the image pull\<close>

text \<open>
  The image pull from launch to end, for a child that is seen running by exactly \<open>n\<close>
  polls: what the call prints on either exit code, and what it does when the interrupt
  arrives in the pause of round \<open>n\<close>, where \<^verbatim>\<open>proc\<close> is bound.
\<close>

lemma monitor_interrupted:
  assumes "\<forall>i<n. running c (k + i)" and "running c (k + n)"
    and "\<forall>i<n. \<not> interrupted E (TickSleep (k + i))"
    and "interrupted E (TickSleep (k + n))"
    and "is_tty E \<longrightarrow> 0 < target_size"
  shows "monitor E c target_size k s =
           Some (Inl KeyboardInterrupt,
             s\<lparr>trace := trace s @ concat (map (tick_log E target_size) [k..<k + n]) @
                [Sleep (1 / 4)]\<rparr>)"
  using assms
proof (induction n arbitrary: k s)
  case 0
  then show ?case
    by (subst monitor.simps) (simp add: monitor_tick_def prog_defs)
next
  case (Suc n)
  have r: "running c k" using Suc.prems(1) by (metis add.right_neutral zero_less_Suc)
  have ni: "\<not> interrupted E (TickSleep k)"
    using Suc.prems(3) by (metis add.right_neutral zero_less_Suc)
  have a: "\<forall>i<n. running c (Suc k + i)" using Suc.prems(1) by (metis add_Suc_shift Suc_less_eq)
  have b: "running c (Suc k + n)" using Suc.prems(2) by simp
  have c: "\<forall>i<n. \<not> interrupted E (TickSleep (Suc k + i))"
    using Suc.prems(3) by (metis add_Suc_shift Suc_less_eq)
  have d: "interrupted E (TickSleep (Suc k + n))" using Suc.prems(4) by simp
  have ih: "monitor E c target_size (Suc k) (s\<lparr>trace := trace s @ tick_log E target_size k\<rparr>) =
    Some (Inl KeyboardInterrupt, s\<lparr>trace := trace s @ tick_log E target_size k @
            concat (map (tick_log E target_size) [Suc k..<Suc (k + n)]) @ [Sleep (1 / 4)]\<rparr>)"
    using Suc.IH [OF a b c d Suc.prems(5)] by simp
  have u: "[k..<Suc (k + n)] = k # [Suc k..<Suc (k + n)]"
    by (simp add: upt_conv_Cons)
  show ?case
    by (subst monitor.simps)
       (simp del: upt_Suc add: r monitor_tick_ok [OF ni Suc.prems(5)] ih u)
qed

lemma sqfs_run:
  assumes "CHR '':'' \<notin> set tag"
    and "oras_path E = Some f"
    and "\<not> interrupted E (GraceSleep (ip @ ''/store.squashfs''))"
    and "\<not> interrupted E (Spawning (f # pull_args ip (base @ '':'' @ tag)))"
    and "popen E (f # pull_args ip (base @ '':'' @ tag)) = Inr c"
    and "\<forall>i<n. running c i" and "\<not> running c n"
    and "\<forall>i<n. \<not> interrupted E (TickSleep i)"
    and "is_tty E \<longrightarrow> 0 < ts"
    and "\<not> interrupted E (Waiting (f # pull_args ip (base @ '':'' @ tag)))"
  shows "pull_uenv E (base @ '':'' @ tag) ip ts False True =
           Some (if returncode c = 0 then Inr () else Inl SystemExit,
             \<lparr>trace = cleanup_sqfs E ip @ find_log E @
                [Info (''calling oras: '' @ join_sp (f # pull_args ip (base @ '':'' @ tag))),
                 Launch (f # pull_args ip (base @ '':'' @ tag))] @
                concat (map (tick_log E ts) [0..<n]) @
                (if returncode c = 0
                 then [Progress 1 50 (label ts ts), Stdout [],
                       Info (''oras command successful: '' @ stdout_text c)]
                 else [Error (''image pull failed: '' @ stderr_text c @ nl @
                              error_message_from_stderr E (stderr_text c))]),
              proc = Some (f # pull_args ip (base @ '':'' @ tag), c)\<rparr>)"
proof -
  have m: "monitor E c ts 0 s =
      Some (Inr (), s\<lparr>trace := trace s @ concat (map (tick_log E ts) [0..<n])\<rparr>)" for s
    using monitor_exits [of n c 0 E ts s] assms by simp
  show ?thesis
    using assms(1-5,10)
    by (simp add: pull_uenv_def body_split pull_sqfs_step_def
        rci_launched [unfolded pull_args_def] m cleanup_sqfs_def pull_args_def
        label_def floor_mb initial_def prog_defs Let_def)
qed

lemma sqfs_interrupt:
  assumes "CHR '':'' \<notin> set tag"
    and "oras_path E = Some f"
    and "\<not> interrupted E (GraceSleep (ip @ ''/store.squashfs''))"
    and "\<not> interrupted E (Spawning (f # pull_args ip (base @ '':'' @ tag)))"
    and "popen E (f # pull_args ip (base @ '':'' @ tag)) = Inr c"
    and "\<forall>i<n. running c i" and "running c n"
    and "\<forall>i<n. \<not> interrupted E (TickSleep i)"
    and "interrupted E (TickSleep n)"
    and "is_tty E \<longrightarrow> 0 < ts"
  shows "pull_uenv E (base @ '':'' @ tag) ip ts False True =
           Some (Inl SystemExit,
             \<lparr>trace = cleanup_sqfs E ip @ find_log E @
                [Info (''calling oras: '' @ join_sp (f # pull_args ip (base @ '':'' @ tag))),
                 Launch (f # pull_args ip (base @ '':'' @ tag))] @
                concat (map (tick_log E ts) [0..<n]) @
                [Sleep (1 / 4),
                 Terminate (f # pull_args ip (base @ '':'' @ tag)),
                 Stdout [],
                 Error ''image pull cancelled by user.''],
              proc = Some (f # pull_args ip (base @ '':'' @ tag), c)\<rparr>)"
proof -
  have m: "monitor E c ts 0 s =
      Some (Inl KeyboardInterrupt,
        s\<lparr>trace := trace s @ concat (map (tick_log E ts) [0..<n]) @ [Sleep (1 / 4)]\<rparr>)" for s
    using monitor_interrupted [of n c 0 E ts s] assms by simp
  show ?thesis
    using assms(1-5)
    by (simp add: pull_uenv_def body_split pull_sqfs_step_def
        rci_launched [unfolded pull_args_def] m cleanup_sqfs_def pull_args_def
        initial_def prog_defs Let_def)
qed

end
